theory Spec2Isabelle
  imports Complex_Main "HOL-Library.AList" "HOL-Library.Sublist"
    "HOL-Library.Product_Lexorder" "HOL-Library.Multiset"
begin

section \<open>Values, dictionaries and the clock\<close>

text \<open>
  The agents exchange Python dictionaries whose values are of any type. A dictionary is
  an association list in insertion order; \<open>AList.update\<close> overwrites the value of a key
  that is present and appends a new key, as an item assignment on a \<open>dict\<close> does.
  Python floats are idealised as reals.
\<close>

datatype val =
    VNone
  | VBool bool
  | VInt int
  | VFloat real
  | VStr string
  | VList "val list"
  | VDict "(string \<times> val) list"

type_synonym pydict = "(string \<times> val) list"

text \<open>Python's truth value of an object, as \<open>if x\<close> and \<open>x and y\<close> test it.\<close>

fun truthy :: "val \<Rightarrow> bool" where
  "truthy VNone = False"
| "truthy (VBool b) = b"
| "truthy (VInt i) = (i \<noteq> 0)"
| "truthy (VFloat x) = (x \<noteq> 0)"
| "truthy (VStr s) = (s \<noteq> [])"
| "truthy (VList xs) = (xs \<noteq> [])"
| "truthy (VDict d) = (d \<noteq> [])"

text \<open>\<open>d.get(k)\<close>: the value of the key, \<open>None\<close> when the key is missing.\<close>

definition dict_get :: "pydict \<Rightarrow> string \<Rightarrow> val" where
  "dict_get d k = (case map_of d k of None \<Rightarrow> VNone | Some v \<Rightarrow> v)"

text \<open>
  An exception is a value carrying the text that \<open>str(e)\<close> gives. A handler that returns
  something that is no dictionary makes the item assignment that follows raise; that
  outcome is an exception of the handler here.
\<close>

datatype error = Exception string

fun str :: "error \<Rightarrow> string" where
  "str (Exception msg) = msg"

text \<open>
  \<open>datetime.now()\<close> is read from a sequence of clock readings (in seconds): the \<open>n\<close>-th
  call of a run returns \<open>now clk n\<close>, and every function that reads the clock takes the
  number of readings made so far and returns the new number. \<open>isoformat\<close> renders a
  reading as text.
\<close>

record clock =
  now :: "nat \<Rightarrow> real"
  isoformat :: "real \<Rightarrow> string"

text \<open>\<open>round(x, 2)\<close>: to the nearest hundredth, a tie going to the even neighbour.\<close>

definition round2 :: "real \<Rightarrow> real" where
  "round2 x =
     (let y = x * 100; f = \<lfloor>y\<rfloor>; d = y - of_int f
      in (if d < 1 / 2 then of_int f
          else if 1 / 2 < d then of_int (f + 1)
          else if even f then of_int f else of_int (f + 1)) / 100)"

section \<open>The base agent\<close>

datatype AgentMode = OFFLINE | ONLINE | AUTO

fun mode_value :: "AgentMode \<Rightarrow> string" where
  "mode_value OFFLINE = ''offline''"
| "mode_value ONLINE = ''online''"
| "mode_value AUTO = ''auto''"

datatype AgentPriority = CRITICAL | HIGH | MEDIUM | LOW

fun priority_value :: "AgentPriority \<Rightarrow> int" where
  "priority_value CRITICAL = 1"
| "priority_value HIGH = 2"
| "priority_value MEDIUM = 3"
| "priority_value LOW = 4"

text \<open>
  The counters of \<open>BaseAgent.stats\<close>. They start at 0 and are only ever incremented, so
  they are natural numbers.
\<close>

record agent_stats =
  total_requests :: nat
  offline_requests :: nat
  online_requests :: nat
  successful_responses :: nat
  failed_responses :: nat
  avg_response_time_ms :: real
  last_used :: "string option"

text \<open>
  An agent: the fields of \<open>BaseAgent\<close> that the orchestration reads, and the three
  methods a subclass supplies. \<open>internal\<close> is whatever state the subclass keeps (its
  collaborators, caches); a handler reads it and returns it updated, together with either
  the dictionary it returns or the exception it raises. \<open>can_handle\<close> only reads.
\<close>

record 's agent =
  agent_id :: string
  name :: string
  priority :: AgentPriority
  current_mode :: AgentMode
  stats :: agent_stats
  internal :: 's
  can_handle :: "'s \<Rightarrow> string \<Rightarrow> pydict \<Rightarrow> error + real"
  process_offline :: "'s \<Rightarrow> string \<Rightarrow> pydict option \<Rightarrow> (error + pydict) \<times> 's"
  process_online :: "'s \<Rightarrow> string \<Rightarrow> pydict option \<Rightarrow> (error + pydict) \<times> 's"

definition fresh_stats :: agent_stats where
  "fresh_stats =
     \<lparr>total_requests = 0, offline_requests = 0, online_requests = 0,
      successful_responses = 0, failed_responses = 0,
      avg_response_time_ms = 0, last_used = None\<rparr>"

text \<open>\<open>BaseAgent.__init__\<close>: the current mode is the default mode, the counters are 0.\<close>

definition BaseAgent ::
  "string \<Rightarrow> string \<Rightarrow> AgentPriority \<Rightarrow> AgentMode \<Rightarrow> 's \<Rightarrow>
   ('s \<Rightarrow> string \<Rightarrow> pydict \<Rightarrow> error + real) \<Rightarrow>
   ('s \<Rightarrow> string \<Rightarrow> pydict option \<Rightarrow> (error + pydict) \<times> 's) \<Rightarrow>
   ('s \<Rightarrow> string \<Rightarrow> pydict option \<Rightarrow> (error + pydict) \<times> 's) \<Rightarrow> 's agent" where
  "BaseAgent aid nm prio default_mode s ch off on =
     \<lparr>agent_id = aid, name = nm, priority = prio, current_mode = default_mode,
      stats = fresh_stats, internal = s,
      can_handle = ch, process_offline = off, process_online = on\<rparr>"

text \<open>
  \<open>_check_connectivity\<close>: the value stored under \<open>has_internet\<close> when the context is a
  non-empty dictionary that has the key, \<open>False\<close> otherwise.
\<close>

definition check_connectivity :: "pydict option \<Rightarrow> val" where
  "check_connectivity context =
     (case context of
        None \<Rightarrow> VBool False
      | Some c \<Rightarrow>
          (if c \<noteq> [] \<and> map_of c ''has_internet'' \<noteq> None
           then dict_get c ''has_internet'' else VBool False))"

text \<open>
  The mode \<open>process\<close> runs in: the override when one is given (every member of the
  enumeration is true as a condition), the agent's current mode otherwise, and \<open>AUTO\<close>
  resolved by the connectivity check.
\<close>

definition active_mode :: "'s agent \<Rightarrow> pydict option \<Rightarrow> AgentMode option \<Rightarrow> AgentMode" where
  "active_mode a context mode =
     (let m = (case mode of Some ov \<Rightarrow> ov | None \<Rightarrow> current_mode a)
      in if m = AUTO
         then (if truthy (check_connectivity context) then ONLINE else OFFLINE)
         else m)"

text \<open>
  \<open>_update_avg_response_time\<close>. The division raises \<open>ZeroDivisionError\<close> when the
  success count is 0.
\<close>

definition update_avg_response_time :: "agent_stats \<Rightarrow> real \<Rightarrow> error + agent_stats" where
  "update_avg_response_time st new_time_ms =
     (let current_avg = avg_response_time_ms st; total = successful_responses st
      in if total = 1 then Inr (st\<lparr>avg_response_time_ms := new_time_ms\<rparr>)
         else if total = 0 then Inl (Exception ''division by zero'')
         else Inr (st\<lparr>avg_response_time_ms :=
                (current_avg * (real total - 1) + new_time_ms) / real total\<rparr>))"

text \<open>The handler that \<open>process\<close> calls in the mode it resolved.\<close>

definition run_handler ::
  "'s agent \<Rightarrow> string \<Rightarrow> pydict option \<Rightarrow> AgentMode option \<Rightarrow> (error + pydict) \<times> 's" where
  "run_handler a query context mode =
     (if active_mode a context mode = OFFLINE
      then process_offline a (internal a) query context
      else process_online a (internal a) query context)"

text \<open>The envelope that the \<open>except\<close> branch of \<open>process\<close> returns.\<close>

definition agent_failure :: "'s agent \<Rightarrow> error \<Rightarrow> AgentMode \<Rightarrow> string \<Rightarrow> pydict" where
  "agent_failure a e m ts =
     [(''success'', VBool False), (''error'', VStr (str e)),
      (''agent_id'', VStr (agent_id a)), (''agent_name'', VStr (name a)),
      (''mode'', VStr (mode_value m)), (''timestamp'', VStr ts)]"

text \<open>
  \<open>BaseAgent.process\<close>, from the clock reading \<open>n\<close> on. It returns the envelope, the agent
  with its counters (and the subclass state) updated, and the next clock reading.
\<close>

definition process ::
  "clock \<Rightarrow> 's agent \<Rightarrow> string \<Rightarrow> pydict option \<Rightarrow> AgentMode option \<Rightarrow> nat \<Rightarrow>
   pydict \<times> 's agent \<times> nat" where
  "process clk a query context mode n =
     (let start_time = now clk n;
          st1 = (stats a)\<lparr>total_requests := total_requests (stats a) + 1,
                          last_used := Some (isoformat clk start_time)\<rparr>;
          m = active_mode a context mode;
          st2 = (if m = OFFLINE
                 then st1\<lparr>offline_requests := offline_requests st1 + 1\<rparr>
                 else st1\<lparr>online_requests := online_requests st1 + 1\<rparr>);
          (res, s') = run_handler a query context mode
      in case res of
           Inl e \<Rightarrow>
             (agent_failure a e m (isoformat clk (now clk (n + 1))),
              a\<lparr>stats := st2\<lparr>failed_responses := failed_responses st2 + 1\<rparr>,
                internal := s'\<rparr>,
              n + 2)
         | Inr response \<Rightarrow>
             (let r1 = AList.update ''agent_id'' (VStr (agent_id a)) response;
                  r2 = AList.update ''agent_name'' (VStr (name a)) r1;
                  r3 = AList.update ''mode'' (VStr (mode_value m)) r2;
                  r4 = AList.update ''timestamp'' (VStr (isoformat clk (now clk (n + 1)))) r3;
                  st3 = st2\<lparr>successful_responses := successful_responses st2 + 1\<rparr>;
                  elapsed = (now clk (n + 2) - start_time) * 1000
              in case update_avg_response_time st3 elapsed of
                   Inl e \<Rightarrow>
                     (agent_failure a e m (isoformat clk (now clk (n + 3))),
                      a\<lparr>stats := st3\<lparr>failed_responses := failed_responses st3 + 1\<rparr>,
                        internal := s'\<rparr>,
                      n + 4)
                 | Inr st4 \<Rightarrow>
                     (AList.update ''response_time_ms'' (VFloat (round2 elapsed)) r4,
                      a\<lparr>stats := st4, internal := s'\<rparr>,
                      n + 3)))"

text \<open>A sequence of calls of \<open>process\<close> on the same agent, each with its own arguments.\<close>

fun process_calls ::
  "clock \<Rightarrow> 's agent \<Rightarrow> (string \<times> pydict option \<times> AgentMode option) list \<Rightarrow> nat \<Rightarrow>
   's agent \<times> nat" where
  "process_calls clk a [] n = (a, n)"
| "process_calls clk a ((query, context, mode) # calls) n =
     (case process clk a query context mode n of
        (response, a', n') \<Rightarrow> process_calls clk a' calls n')"

section \<open>The offline knowledge agent\<close>

text \<open>
  Query strings are byte strings here. \<open>lower\<close> maps the letters A to Z to a to z and
  leaves every other byte as it is; \<open>contains kw s\<close> is Python's \<open>kw in s\<close>.
\<close>

definition lower_char :: "char \<Rightarrow> char" where
  "lower_char c =
     (if (65::nat) \<le> of_char c \<and> of_char c \<le> (90::nat)
      then char_of (of_char c + (32::nat)) else c)"

definition lower :: "string \<Rightarrow> string" where
  "lower s = map lower_char s"

fun contains :: "string \<Rightarrow> string \<Rightarrow> bool" where
  "contains kw [] = (kw = [])"
| "contains kw (c # s) = (prefix kw (c # s) \<or> contains kw s)"

definition app_keywords :: "string list" where
  "app_keywords =
     [''how to use'', ''help'', ''guide'', ''app'', ''feature'',
      ''navigation'', ''settings'', ''scan'', ''share'', ''qr'',
      ''timetable'', ''notes'', ''offline'']"

definition education_keywords :: "string list" where
  "education_keywords =
     [''what is'', ''explain'', ''definition'', ''formula'',
      ''theorem'', ''law'', ''principle'', ''concept'']"

text \<open>\<open>OfflineKnowledgeAgent.can_handle\<close>.\<close>

definition offline_knowledge_can_handle :: "string \<Rightarrow> pydict \<Rightarrow> real" where
  "offline_knowledge_can_handle query context =
     (let query_lower = lower query
      in if list_ex (\<lambda>kw. contains kw query_lower) app_keywords then 9 / 10
         else if list_ex (\<lambda>kw. contains kw query_lower) education_keywords then 7 / 10
         else 3 / 10)"

text \<open>
  \<open>OfflineKnowledgeAgent.__init__\<close>. The offline handler consults the knowledge base, a
  collaborator kept in the subclass state; it is the argument \<open>off\<close>. The online handler
  of this agent calls the offline one.
\<close>

definition OfflineKnowledgeAgent ::
  "'s \<Rightarrow> ('s \<Rightarrow> string \<Rightarrow> pydict option \<Rightarrow> (error + pydict) \<times> 's) \<Rightarrow> 's agent" where
  "OfflineKnowledgeAgent s off =
     BaseAgent ''offline_knowledge'' ''Offline Knowledge Agent'' CRITICAL OFFLINE s
       (\<lambda>s query context. Inr (offline_knowledge_can_handle query context)) off off"

section \<open>The orchestrator\<close>

text \<open>
  The counters of \<open>AgentOrchestrator.stats\<close> (its \<open>avg_response_time_ms\<close> is never
  written and is left out) and the orchestrator: the registry in insertion order, as the
  dictionary \<open>self.agents\<close> iterates, and the counters.
\<close>

record orchestrator_stats =
  total_queries :: nat
  orch_successful_responses :: nat
  orch_failed_responses :: nat
  agent_usage :: "(string \<times> nat) list"

record 's orchestrator =
  agents :: "(string \<times> 's agent) list"
  orch_stats :: orchestrator_stats

text \<open>
  \<open>_initialize_agents\<close>: the eight agents under their identifiers, the offline knowledge
  agent first. The seven other agents are built by their own classes and are arguments.
\<close>

definition initialize_agents ::
  "'s agent \<Rightarrow> 's agent \<Rightarrow> 's agent \<Rightarrow> 's agent \<Rightarrow> 's agent \<Rightarrow> 's agent \<Rightarrow> 's agent \<Rightarrow>
   's agent \<Rightarrow> (string \<times> 's agent) list" where
  "initialize_agents offline_knowledge study_assistant voice_interface language_support
       assessment content_discovery study_path_planner accessibility =
     [(''offline_knowledge'', offline_knowledge),
      (''study_assistant'', study_assistant),
      (''voice_interface'', voice_interface),
      (''language_support'', language_support),
      (''assessment'', assessment),
      (''content_discovery'', content_discovery),
      (''study_path_planner'', study_path_planner),
      (''accessibility'', accessibility)]"

text \<open>\<open>AgentOrchestrator.__init__\<close> around a registry.\<close>

definition AgentOrchestrator :: "(string \<times> 's agent) list \<Rightarrow> 's orchestrator" where
  "AgentOrchestrator registry =
     \<lparr>agents = registry,
      orch_stats = \<lparr>total_queries = 0, orch_successful_responses = 0,
                    orch_failed_responses = 0, agent_usage = []\<rparr>\<rparr>"

text \<open>\<open>str(KeyError(k))\<close> is the key in quotes.\<close>

definition key_error :: "string \<Rightarrow> error" where
  "key_error k = Exception (CHR 0x27 # k @ [CHR 0x27])"

text \<open>
  The loop of \<open>_select_agents\<close>: the agents that score above 0, in registry order, each
  with its score and the ordinal of its priority. A \<open>can_handle\<close> that raises ends it.
\<close>

fun agent_scores ::
  "(string \<times> 's agent) list \<Rightarrow> string \<Rightarrow> pydict \<Rightarrow> error + (string \<times> real \<times> int) list" where
  "agent_scores [] query context = Inr []"
| "agent_scores ((aid, a) # rest) query context =
     (case can_handle a (internal a) query context of
        Inl e \<Rightarrow> Inl e
      | Inr confidence \<Rightarrow>
          (case agent_scores rest query context of
             Inl e \<Rightarrow> Inl e
           | Inr scores \<Rightarrow>
               Inr (if confidence > 0
                    then (aid, confidence, priority_value (priority a)) # scores
                    else scores)))"

text \<open>
  \<open>_select_agents\<close>: the stable sort by the key \<open>(-score, ordinal)\<close>, compared as
  Python compares tuples, then the first three without their ordinals.
\<close>

definition select_agents ::
  "'s orchestrator \<Rightarrow> string \<Rightarrow> pydict \<Rightarrow> error + (string \<times> real) list" where
  "select_agents orch query context =
     (case agent_scores (agents orch) query context of
        Inl e \<Rightarrow> Inl e
      | Inr scores \<Rightarrow>
          Inr (map (\<lambda>(aid, conf, p). (aid, conf))
                 (take 3 (sort_key (\<lambda>(aid, conf, p). (- conf, p)) scores))))"

text \<open>
  \<open>_default_response\<close>. The functions of the orchestrator that can raise return the
  outcome (the exception or the envelope) with the orchestrator and the clock as they
  are at that moment.
\<close>

definition default_response ::
  "clock \<Rightarrow> 's orchestrator \<Rightarrow> string \<Rightarrow> pydict \<Rightarrow> nat \<Rightarrow>
   (error + pydict) \<times> 's orchestrator \<times> nat" where
  "default_response clk orch query context n =
     (case map_of (agents orch) ''offline_knowledge'' of
        None \<Rightarrow> (Inl (key_error ''offline_knowledge''), orch, n)
      | Some fallback_agent \<Rightarrow>
          (case process clk fallback_agent query (Some context) None n of
             (response, a', n') \<Rightarrow>
               (Inr (AList.update ''is_fallback'' (VBool True) response),
                orch\<lparr>agents := AList.update ''offline_knowledge'' a' (agents orch)\<rparr>,
                n')))"

text \<open>
  The loop of \<open>_enhance_response\<close> over the secondary agents it is given, collecting
  the dictionary \<open>enhancements\<close>. The lookup of the agent is outside the \<open>try\<close>; nothing
  inside the \<open>try\<close> raises, since \<open>process\<close> returns an envelope in every case.
\<close>

fun enhance_loop ::
  "clock \<Rightarrow> 's orchestrator \<Rightarrow> pydict \<Rightarrow> (string \<times> real) list \<Rightarrow> string \<Rightarrow> pydict \<Rightarrow>
   pydict \<Rightarrow> nat \<Rightarrow> (error + pydict) \<times> 's orchestrator \<times> nat" where
  "enhance_loop clk orch primary_response [] query context enhancements n =
     (Inr enhancements, orch, n)"
| "enhance_loop clk orch primary_response ((aid, confidence) # rest) query context
       enhancements n =
     (case map_of (agents orch) aid of
        None \<Rightarrow> (Inl (key_error aid), orch, n)
      | Some a \<Rightarrow>
          if aid = ''content_discovery'' \<and> confidence > 1 / 2 then
            (case process clk a query
                    (Some (AList.update ''subject'' (dict_get primary_response ''subject'')
                             context)) None n of
               (video_response, a', n') \<Rightarrow>
                 enhance_loop clk (orch\<lparr>agents := AList.update aid a' (agents orch)\<rparr>)
                   primary_response rest query context
                   (if truthy (dict_get video_response ''success'')
                    then AList.update ''recommended_videos'' (VDict video_response)
                           enhancements
                    else enhancements) n')
          else if aid = ''study_path_planner'' \<and> confidence > 1 / 2 then
            enhance_loop clk orch primary_response rest query context
              (AList.update ''study_path_available'' (VBool True) enhancements) n
          else if aid = ''assessment'' \<and> confidence > 1 / 2 then
            enhance_loop clk orch primary_response rest query context
              (AList.update ''practice_available'' (VBool True) enhancements) n
          else enhance_loop clk orch primary_response rest query context enhancements n)"

text \<open>\<open>_enhance_response\<close>: the loop over the first two secondary agents.\<close>

definition enhance_response ::
  "clock \<Rightarrow> 's orchestrator \<Rightarrow> pydict \<Rightarrow> (string \<times> real) list \<Rightarrow> string \<Rightarrow> pydict \<Rightarrow> nat \<Rightarrow>
   (error + pydict) \<times> 's orchestrator \<times> nat" where
  "enhance_response clk orch primary_response secondary_agents query context n =
     (case enhance_loop clk orch primary_response (take 2 secondary_agents) query context
             [] n of
        (Inl e, orch', n') \<Rightarrow> (Inl e, orch', n')
      | (Inr enhancements, orch', n') \<Rightarrow>
          (Inr (if enhancements \<noteq> []
                then AList.update ''enhancements'' (VDict enhancements) primary_response
                else primary_response),
           orch', n'))"

text \<open>\<open>_update_agent_usage\<close>.\<close>

definition update_agent_usage :: "orchestrator_stats \<Rightarrow> string \<Rightarrow> orchestrator_stats" where
  "update_agent_usage st aid =
     (case map_of (agent_usage st) aid of
        None \<Rightarrow>
          st\<lparr>agent_usage := AList.update aid (0 + 1) (AList.update aid 0 (agent_usage st))\<rparr>
      | Some c \<Rightarrow> st\<lparr>agent_usage := AList.update aid (c + 1) (agent_usage st)\<rparr>)"

text \<open>
  The body of the \<open>try\<close> of \<open>process_query\<close>, after the total has been counted;
  \<open>start_time\<close> is the reading taken at entry.
\<close>

definition query_pipeline ::
  "clock \<Rightarrow> 's orchestrator \<Rightarrow> string \<Rightarrow> pydict \<Rightarrow> real \<Rightarrow> nat \<Rightarrow>
   (error + pydict) \<times> 's orchestrator \<times> nat" where
  "query_pipeline clk orch query context start_time n =
     (case select_agents orch query context of
        Inl e \<Rightarrow> (Inl e, orch, n)
      | Inr [] \<Rightarrow> default_response clk orch query context n
      | Inr ((primary_agent_id, confidence) # secondary) \<Rightarrow>
          (case map_of (agents orch) primary_agent_id of
             None \<Rightarrow> (Inl (key_error primary_agent_id), orch, n)
           | Some primary_agent \<Rightarrow>
               (case process clk primary_agent query (Some context) None n of
                  (response, a', n1) \<Rightarrow>
                    (case (if 1 < length ((primary_agent_id, confidence) # secondary) \<and>
                              truthy (dict_get response ''success'')
                           then enhance_response clk
                                  (orch\<lparr>agents :=
                                     AList.update primary_agent_id a' (agents orch)\<rparr>)
                                  response secondary query context n1
                           else (Inr response,
                                 orch\<lparr>agents :=
                                   AList.update primary_agent_id a' (agents orch)\<rparr>,
                                 n1)) of
                       (Inl e, orch2, n2) \<Rightarrow> (Inl e, orch2, n2)
                     | (Inr response2, orch2, n2) \<Rightarrow>
                         (let st = orch_stats orch2;
                              st1 = (if truthy (dict_get response2 ''success'')
                                     then st\<lparr>orch_successful_responses :=
                                            orch_successful_responses st + 1\<rparr>
                                     else st\<lparr>orch_failed_responses :=
                                            orch_failed_responses st + 1\<rparr>);
                              st2 = update_agent_usage st1 primary_agent_id;
                              elapsed = (now clk n2 - start_time) * 1000
                          in (Inr (AList.update ''total_response_time_ms''
                                     (VFloat (round2 elapsed)) response2),
                              orch2\<lparr>orch_stats := st2\<rparr>,
                              n2 + 1))))))"

text \<open>The envelope that the \<open>except\<close> branch of \<open>process_query\<close> returns.\<close>

definition pipeline_failure :: "error \<Rightarrow> string \<Rightarrow> pydict" where
  "pipeline_failure e ts =
     [(''success'', VBool False), (''error'', VStr (str e)),
      (''message'', VStr ''An error occurred while processing your request''),
      (''timestamp'', VStr ts)]"

text \<open>
  \<open>process_query\<close>, from the clock reading \<open>n\<close> on: the envelope, the orchestrator
  after the call and the next clock reading. A missing or empty context is the empty
  dictionary.
\<close>

definition process_query ::
  "clock \<Rightarrow> 's orchestrator \<Rightarrow> string \<Rightarrow> pydict option \<Rightarrow> nat \<Rightarrow>
   pydict \<times> 's orchestrator \<times> nat" where
  "process_query clk orch query context n =
     (let start_time = now clk n;
          orch1 = orch\<lparr>orch_stats := (orch_stats orch)
                    \<lparr>total_queries := total_queries (orch_stats orch) + 1\<rparr>\<rparr>;
          ctx = (case context of None \<Rightarrow> [] | Some c \<Rightarrow> c)
      in case query_pipeline clk orch1 query ctx start_time (n + 1) of
           (Inr response, orch2, n2) \<Rightarrow> (response, orch2, n2)
         | (Inl e, orch2, n2) \<Rightarrow>
             (pipeline_failure e (isoformat clk (now clk n2)),
              orch2\<lparr>orch_stats := (orch_stats orch2)
                 \<lparr>orch_failed_responses := orch_failed_responses (orch_stats orch2) + 1\<rparr>\<rparr>,
              n2 + 1))"

text \<open>A sequence of calls of \<open>process_query\<close> on the same orchestrator.\<close>

fun run_queries ::
  "clock \<Rightarrow> 's orchestrator \<Rightarrow> (string \<times> pydict option) list \<Rightarrow> nat \<Rightarrow>
   's orchestrator \<times> nat" where
  "run_queries clk orch [] n = (orch, n)"
| "run_queries clk orch ((query, context) # rest) n =
     (case process_query clk orch query context n of
        (response, orch', n') \<Rightarrow> run_queries clk orch' rest n')"


section \<open>The selection contract\<close>

text \<open>
  The words of the selection contract, to compare \<open>select_agents\<close> with: the score of an
  agent whose \<open>can_handle\<close> returns one, the registered agents whose score is above 0 (in
  registry order, each with its score and the ordinal of its priority), and the order
  "descending score, then ascending priority ordinal".
\<close>

definition score :: "'s agent \<Rightarrow> string \<Rightarrow> pydict \<Rightarrow> real" where
  "score a query context =
     (case can_handle a (internal a) query context of Inr c \<Rightarrow> c | Inl e \<Rightarrow> 0)"

definition eligible ::
  "(string \<times> 's agent) list \<Rightarrow> string \<Rightarrow> pydict \<Rightarrow> (string \<times> real \<times> int) list" where
  "eligible registry query context =
     filter (\<lambda>(aid, conf, p). conf > 0)
       (map (\<lambda>(aid, a). (aid, score a query context, priority_value (priority a))) registry)"

definition ranked_before :: "string \<times> real \<times> int \<Rightarrow> string \<times> real \<times> int \<Rightarrow> bool" where
  "ranked_before x y =
     (fst (snd x) > fst (snd y) \<or> (fst (snd x) = fst (snd y) \<and> snd (snd x) \<le> snd (snd y)))"

section \<open>Concrete instances\<close>

text \<open>A clock that advances by one second at every reading.\<close>

definition tick_clock :: clock where
  "tick_clock = \<lparr>now = (\<lambda>n. real n), isoformat = (\<lambda>t. ''T'')\<rparr>"

text \<open>
  An agent in \<open>AUTO\<close> mode whose offline handler answers and whose online handler raises.
\<close>

definition echo_agent :: "unit agent" where
  "echo_agent =
     BaseAgent ''echo'' ''Echo Agent'' MEDIUM AUTO ()
       (\<lambda>s q c. Inr (1 / 2))
       (\<lambda>s q c. (Inr [(''success'', VBool True), (''answer'', VStr q)], s))
       (\<lambda>s q c. (Inl (Exception ''network unreachable''), s))"

text \<open>
  An agent with a constant score whose two handlers have the same fixed outcome, and a
  registry of five of them.
\<close>

definition const_agent :: "string \<Rightarrow> AgentPriority \<Rightarrow> real \<Rightarrow> error + pydict \<Rightarrow> unit agent" where
  "const_agent aid prio sc out =
     BaseAgent aid aid prio AUTO () (\<lambda>s q c. Inr sc) (\<lambda>s q c. (out, s)) (\<lambda>s q c. (out, s))"

definition ok_envelope :: "error + pydict" where
  "ok_envelope = Inr [(''success'', VBool True), (''answer'', VStr ''42'')]"

definition demo_registry :: "(string \<times> unit agent) list" where
  "demo_registry =
     [(''alpha'', const_agent ''alpha'' LOW (9 / 10) ok_envelope),
      (''beta'', const_agent ''beta'' MEDIUM 0 ok_envelope),
      (''gamma'', const_agent ''gamma'' HIGH (9 / 10) ok_envelope),
      (''delta'', const_agent ''delta'' CRITICAL (1 / 2) ok_envelope),
      (''epsilon'', const_agent ''epsilon'' MEDIUM (7 / 10) ok_envelope)]"

(*MORE_FIXTURES*)

section \<open>Properties of the base agent\<close>

lemma process_mode_field:
  "map_of (fst (process clk a q context mode n)) ''mode'' =
     Some (VStr (mode_value (active_mode a context mode)))"
  by (simp add: process_def agent_failure_def Let_def update_conv'
      split: prod.splits sum.splits)

text \<open>
  C4. When the effective mode of a call of \<open>process\<close> (the override if one is given, the
  current mode otherwise) is \<open>AUTO\<close>: without a context, or with a context that lacks the
  key \<open>has_internet\<close>, the call runs \<open>OFFLINE\<close>; with the key present it runs \<open>ONLINE\<close>
  exactly when the stored value is true, in particular when it is the boolean \<open>True\<close>.
  The mode so resolved is the one the envelope reports.
\<close>

theorem auto_mode_follows_has_internet:
  assumes "(case mode of Some ov \<Rightarrow> ov | None \<Rightarrow> current_mode a) = AUTO"
  shows "(context = None \<longrightarrow> active_mode a context mode = OFFLINE) \<and>
     (\<forall>c. context = Some c \<longrightarrow> map_of c ''has_internet'' = None \<longrightarrow>
        active_mode a context mode = OFFLINE) \<and>
     (\<forall>c v. context = Some c \<longrightarrow> map_of c ''has_internet'' = Some v \<longrightarrow>
        (active_mode a context mode = ONLINE \<longleftrightarrow> truthy v) \<and>
        (active_mode a context mode = OFFLINE \<longleftrightarrow> \<not> truthy v)) \<and>
     (\<forall>c b. context = Some c \<longrightarrow> map_of c ''has_internet'' = Some (VBool b) \<longrightarrow>
        (active_mode a context mode = ONLINE \<longleftrightarrow> b)) \<and>
     map_of (fst (process clk a q context mode n)) ''mode'' =
       Some (VStr (mode_value (active_mode a context mode)))"
  using assms
  by (auto simp: active_mode_def check_connectivity_def dict_get_def process_mode_field
      split: option.splits)

theorem auto_mode_follows_has_internet_witness:
  "active_mode echo_agent (Some [(''has_internet'', VBool True)]) None = ONLINE \<and>
   active_mode echo_agent (Some [(''has_internet'', VBool False)]) None = OFFLINE \<and>
   active_mode echo_agent (Some [(''language'', VStr ''en'')]) None = OFFLINE \<and>
   active_mode echo_agent None None = OFFLINE"
proof -
  have h: "(case None of Some ov \<Rightarrow> ov | None \<Rightarrow> current_mode echo_agent) = AUTO"
    by (simp add: echo_agent_def BaseAgent_def)
  show ?thesis
    using auto_mode_follows_has_internet [OF h, of "Some [(''has_internet'', VBool True)]"]
      auto_mode_follows_has_internet [OF h, of "Some [(''has_internet'', VBool False)]"]
      auto_mode_follows_has_internet [OF h, of "Some [(''language'', VStr ''en'')]"]
      auto_mode_follows_has_internet [OF h, of None]
    by simp
qed

text \<open>
  C8. When the handler that \<open>process\<close> calls returns normally, \<open>process\<close> increments the
  success count to \<open>k\<close> and stores the average \<open>(avg * (k - 1) + new) / k\<close>, where \<open>avg\<close> is
  the average stored before and \<open>new\<close> the elapsed time of this call in milliseconds;
  with \<open>k = 1\<close> the stored average is \<open>new\<close> itself. The same elapsed time, rounded, is
  the \<open>response_time_ms\<close> of the envelope.
\<close>

theorem process_updates_running_average:
  assumes "run_handler a q context mode = (Inr r, s')"
  shows "\<exists>resp a'. process clk a q context mode n = (resp, a', n + 3) \<and>
      successful_responses (stats a') = successful_responses (stats a) + 1 \<and>
      avg_response_time_ms (stats a') =
        (avg_response_time_ms (stats a) * (real (successful_responses (stats a')) - 1)
           + (now clk (n + 2) - now clk n) * 1000) / real (successful_responses (stats a')) \<and>
      (successful_responses (stats a') = 1 \<longrightarrow>
         avg_response_time_ms (stats a') = (now clk (n + 2) - now clk n) * 1000) \<and>
      map_of resp ''response_time_ms'' =
        Some (VFloat (round2 ((now clk (n + 2) - now clk n) * 1000)))"
  using assms
  by (auto simp: process_def update_avg_response_time_def Let_def update_conv')

theorem process_updates_running_average_witness:
  "run_handler echo_agent ''hi'' None None =
     (Inr [(''success'', VBool True), (''answer'', VStr ''hi'')], ()) \<and>
   avg_response_time_ms (stats (fst (snd (process tick_clock echo_agent ''hi'' None None 0))))
     = 2000"
proof -
  have h: "run_handler echo_agent ''hi'' None None =
     (Inr [(''success'', VBool True), (''answer'', VStr ''hi'')], ())"
    by (simp add: run_handler_def active_mode_def check_connectivity_def echo_agent_def
        BaseAgent_def)
  have z: "successful_responses (stats echo_agent) = 0"
    "avg_response_time_ms (stats echo_agent) = 0"
    by (simp_all add: echo_agent_def BaseAgent_def fresh_stats_def)
  from process_updates_running_average [OF h, of tick_clock 0] z h
  show ?thesis by (auto simp: tick_clock_def)
qed

lemma process_inv:
  "successful_responses (stats a) + failed_responses (stats a) = total_requests (stats a) \<Longrightarrow>
   process clk a q c m n = (r, a', n') \<Longrightarrow>
   successful_responses (stats a') + failed_responses (stats a') = total_requests (stats a') \<and>
   total_requests (stats a') = total_requests (stats a) + 1"
  by (auto simp: process_def update_avg_response_time_def Let_def
      split: prod.splits sum.splits if_splits)

lemma process_calls_inv:
  "successful_responses (stats a) + failed_responses (stats a) = total_requests (stats a) \<Longrightarrow>
   process_calls clk a calls n = (a', n') \<Longrightarrow>
   successful_responses (stats a') + failed_responses (stats a') = total_requests (stats a') \<and>
   total_requests (stats a') = total_requests (stats a) + length calls"
proof (induction calls arbitrary: a n)
  case Nil
  then show ?case by simp
next
  case (Cons call calls)
  obtain q c m where call: "call = (q, c, m)" by (cases call)
  obtain r a1 n1 where p: "process clk a q c m n = (r, a1, n1)"
    by (cases "process clk a q c m n")
  from process_inv [OF Cons.prems(1) p] Cons.IH [of a1 n1] Cons.prems(2) call p
  show ?case by auto
qed

text \<open>
  C9. Starting from a freshly constructed agent, after each call of any sequence of calls
  of \<open>process\<close> (whatever the handlers do: return or raise) the counters satisfy
  \<open>successful_responses + failed_responses = total_requests\<close>, and after the first \<open>k\<close>
  calls \<open>total_requests = k\<close>.
\<close>

theorem process_calls_counters:
  "\<forall>k\<le>length calls.
     (case process_calls clk (BaseAgent aid nm prio dm s ch off on) (take k calls) n of
        (a', n') \<Rightarrow>
          successful_responses (stats a') + failed_responses (stats a')
            = total_requests (stats a') \<and>
          total_requests (stats a') = k)"
proof (intro allI impI)
  fix k assume k: "k \<le> length calls"
  let ?a = "BaseAgent aid nm prio dm s ch off on"
  obtain a' n' where r: "process_calls clk ?a (take k calls) n = (a', n')"
    by (cases "process_calls clk ?a (take k calls) n")
  have "successful_responses (stats ?a) + failed_responses (stats ?a) = total_requests (stats ?a)"
    and "total_requests (stats ?a) = 0"
    by (simp_all add: BaseAgent_def fresh_stats_def)
  with process_calls_inv [OF _ r] k r
  show "case process_calls clk ?a (take k calls) n of
        (a', n') \<Rightarrow>
          successful_responses (stats a') + failed_responses (stats a')
            = total_requests (stats a') \<and>
          total_requests (stats a') = k"
    by simp
qed

theorem process_calls_counters_witness:
  "(2::nat) \<le> length [(''a'', None, None), (''b'', Some [(''has_internet'', VBool True)], None)] \<and>
   (case process_calls tick_clock echo_agent
           (take 2 [(''a'', None, None), (''b'', Some [(''has_internet'', VBool True)], None)]) 0 of
      (a', n') \<Rightarrow>
        successful_responses (stats a') + failed_responses (stats a')
          = total_requests (stats a') \<and>
        total_requests (stats a') = 2)"
proof -
  have k: "(2::nat) \<le> length [(''a'', None, None), (''b'', Some [(''has_internet'', VBool True)], None)]"
    by simp
  from process_calls_counters [where clk = tick_clock and aid = "''echo''"
      and nm = "''Echo Agent''" and prio = MEDIUM and dm = AUTO and s = "()"
      and ch = "\<lambda>s q c. Inr (1 / 2)"
      and off = "\<lambda>s q c. (Inr [(''success'', VBool True), (''answer'', VStr q)], s)"
      and on = "\<lambda>s q c. (Inl (Exception ''network unreachable''), s)" and n = 0,
      rule_format, OF k] k
  show ?thesis by (simp only: echo_agent_def simp_thms)
qed

section \<open>Properties of the selection\<close>

lemma agent_scores_eligible:
  "\<forall>(aid, a) \<in> set registry. \<not> isl (can_handle a (internal a) q ctx) \<Longrightarrow>
   agent_scores registry q ctx = Inr (eligible registry q ctx)"
proof (induction registry)
  case Nil
  then show ?case by (simp add: eligible_def)
next
  case (Cons x registry)
  obtain aid a where x: "x = (aid, a)" by (cases x)
  from Cons.prems x obtain c where c: "can_handle a (internal a) q ctx = Inr c"
    by (cases "can_handle a (internal a) q ctx") auto
  from Cons have "agent_scores registry q ctx = Inr (eligible registry q ctx)" by simp
  with x c show ?case by (simp add: eligible_def score_def)
qed

lemma sorted_key_ranked:
  "sorted (map (\<lambda>(aid, conf, p). (- conf, p)) (xs :: (string \<times> real \<times> int) list)) \<Longrightarrow>
   sorted_wrt ranked_before xs"
  by (induction xs) (auto simp: ranked_before_def)

text \<open>
  C1. When no \<open>can_handle\<close> raises, \<open>select_agents\<close> returns the first three of a ranking
  that holds exactly the registered agents whose score is above 0, each once, ordered by
  descending score and, among equal scores, by ascending priority ordinal (so of two
  agents with equal scores the one with the lower ordinal comes first); agents equal in
  both keep their registry order.
\<close>

theorem select_agents_ranking:
  assumes "\<forall>(aid, a) \<in> set (agents orch). \<not> isl (can_handle a (internal a) q ctx)"
  shows "\<exists>ranked.
     select_agents orch q ctx = Inr (map (\<lambda>(aid, conf, p). (aid, conf)) (take 3 ranked)) \<and>
     mset ranked = mset (eligible (agents orch) q ctx) \<and>
     sorted_wrt ranked_before ranked \<and>
     (\<forall>c p. filter (\<lambda>(aid, conf, p'). conf = c \<and> p' = p) ranked
           = filter (\<lambda>(aid, conf, p'). conf = c \<and> p' = p) (eligible (agents orch) q ctx))"
proof -
  let ?key = "\<lambda>(aid :: string, conf :: real, p :: int). (- conf, p)"
  let ?ranked = "sort_key ?key (eligible (agents orch) q ctx)"
  have sel: "select_agents orch q ctx
      = Inr (map (\<lambda>(aid, conf, p). (aid, conf)) (take 3 ?ranked))"
    by (simp add: select_agents_def agent_scores_eligible [OF assms])
  have srt: "sorted_wrt ranked_before ?ranked"
    by (rule sorted_key_ranked) (rule sorted_sort_key)
  have stab: "filter (\<lambda>(aid, conf, p'). conf = c \<and> p' = p) ?ranked
           = filter (\<lambda>(aid, conf, p'). conf = c \<and> p' = p) (eligible (agents orch) q ctx)"
    for c p
  proof -
    have eq: "(\<lambda>(aid, conf, p'). conf = c \<and> p' = p) = (\<lambda>y. ?key y = (- c, p))"
      by (auto simp: fun_eq_iff)
    show ?thesis unfolding eq by (rule sort_key_stable)
  qed
  from sel srt stab show ?thesis by (intro exI [of _ ?ranked]) simp
qed

theorem select_agents_ranking_witness:
  "(\<exists>ranked.
     select_agents (AgentOrchestrator demo_registry) ''quiz'' []
       = Inr (map (\<lambda>(aid, conf, p). (aid, conf)) (take 3 ranked)) \<and>
     mset ranked = mset (eligible demo_registry ''quiz'' []) \<and>
     sorted_wrt ranked_before ranked) \<and>
   select_agents (AgentOrchestrator demo_registry) ''quiz'' []
     = Inr [(''gamma'', 9 / 10), (''alpha'', 9 / 10), (''epsilon'', 7 / 10)]"
proof -
  have h: "\<forall>(aid, a) \<in> set (agents (AgentOrchestrator demo_registry)).
      \<not> isl (can_handle a (internal a) ''quiz'' [])"
    by (simp add: AgentOrchestrator_def demo_registry_def const_agent_def BaseAgent_def)
  have a: "agents (AgentOrchestrator demo_registry) = demo_registry"
    by (simp add: AgentOrchestrator_def)
  have v: "select_agents (AgentOrchestrator demo_registry) ''quiz'' []
     = Inr [(''gamma'', 9 / 10), (''alpha'', 9 / 10), (''epsilon'', 7 / 10)]"
    by (simp add: select_agents_def AgentOrchestrator_def demo_registry_def const_agent_def
        BaseAgent_def)
  from select_agents_ranking [OF h] obtain ranked where
    r: "select_agents (AgentOrchestrator demo_registry) ''quiz'' []
          = Inr (map (\<lambda>(aid, conf, p). (aid, conf)) (take 3 ranked))"
      "mset ranked = mset (eligible (agents (AgentOrchestrator demo_registry)) ''quiz'' [])"
      "sorted_wrt ranked_before ranked"
    by blast
  from r(2) have r2: "mset ranked = mset (eligible demo_registry ''quiz'' [])"
    by (simp only: a)
  from r(1) r2 r(3) have "\<exists>ranked.
     select_agents (AgentOrchestrator demo_registry) ''quiz'' []
       = Inr (map (\<lambda>(aid, conf, p). (aid, conf)) (take 3 ranked)) \<and>
     mset ranked = mset (eligible demo_registry ''quiz'' []) \<and>
     sorted_wrt ranked_before ranked"
    by blast
  then show ?thesis using v by (rule conjI)
qed

section \<open>Properties of the orchestrator\<close>

lemma process_raise:
  "run_handler a q c m = (Inl e, s') \<Longrightarrow>
   process clk a q c m n =
     (agent_failure a e (active_mode a c m) (isoformat clk (now clk (n + 1))),
      a\<lparr>stats := (stats a)\<lparr>total_requests := total_requests (stats a) + 1,
            last_used := Some (isoformat clk (now clk n)),
            offline_requests := offline_requests (stats a) + (if active_mode a c m = OFFLINE then 1 else 0),
            online_requests := online_requests (stats a) + (if active_mode a c m = OFFLINE then 0 else 1),
            failed_responses := failed_responses (stats a) + 1\<rparr>,
         internal := s'\<rparr>, n + 2)"
  by (simp add: process_def Let_def)

lemma process_return:
  "run_handler a q c m = (Inr r, s') \<Longrightarrow>
   \<exists>a'. process clk a q c m n =
     (AList.update ''response_time_ms'' (VFloat (round2 ((now clk (n + 2) - now clk n) * 1000)))
        (AList.update ''timestamp'' (VStr (isoformat clk (now clk (n + 1))))
          (AList.update ''mode'' (VStr (mode_value (active_mode a c m)))
            (AList.update ''agent_name'' (VStr (name a))
              (AList.update ''agent_id'' (VStr (agent_id a)) r)))),
      a', n + 3)"
  by (simp add: process_def Let_def update_avg_response_time_def)

lemma process_return_agent:
  "run_handler a q c m = (Inr r, s') \<Longrightarrow> process clk a q c m n = (resp, a', n') \<Longrightarrow>
   agent_id a' = agent_id a \<and> name a' = name a \<and> priority a' = priority a \<and>
   current_mode a' = current_mode a \<and> can_handle a' = can_handle a \<and>
   process_offline a' = process_offline a \<and> process_online a' = process_online a \<and>
   total_requests (stats a') = total_requests (stats a) + 1"
  by (auto simp: process_def Let_def update_avg_response_time_def split: if_splits)

lemma process_fields:
  assumes "process clk a q c m n = (resp, a', n')"
  shows "map_of resp ''agent_id'' = Some (VStr (agent_id a)) \<and>
   map_of resp ''agent_name'' = Some (VStr (name a)) \<and>
   map_of resp ''mode'' = Some (VStr (mode_value (active_mode a c m))) \<and>
   (\<exists>t. map_of resp ''timestamp'' = Some (VStr t)) \<and>
   (map_of resp ''response_time_ms'' \<noteq> None \<longleftrightarrow> \<not> isl (fst (run_handler a q c m)))"
proof (cases "run_handler a q c m")
  case (Pair res s')
  show ?thesis
  proof (cases res)
    case (Inl e)
    with Pair assms process_raise [of a q c m e s' clk n] show ?thesis
      by (auto simp: agent_failure_def)
  next
    case (Inr r)
    with Pair assms process_return [of a q c m r s' clk n] show ?thesis
      by (auto simp: update_conv')
  qed
qed

lemma process_success_field:
  assumes "process clk a q c m n = (resp, a', n')"
  shows "dict_get resp ''success'' =
     (case fst (run_handler a q c m) of Inl e \<Rightarrow> VBool False | Inr r \<Rightarrow> dict_get r ''success'')"
proof (cases "run_handler a q c m")
  case (Pair res s')
  show ?thesis
  proof (cases res)
    case (Inl e)
    with Pair assms process_raise [of a q c m e s' clk n] show ?thesis
      by (auto simp: agent_failure_def dict_get_def)
  next
    case (Inr r)
    with Pair assms process_return [of a q c m r s' clk n] show ?thesis
      by (auto simp: update_conv' dict_get_def)
  qed
qed

lemma process_agent_frame:
  assumes "process clk a q c m n = (resp, a', n')"
  shows "agent_id a' = agent_id a \<and> name a' = name a \<and> priority a' = priority a \<and>
   current_mode a' = current_mode a \<and> can_handle a' = can_handle a \<and>
   process_offline a' = process_offline a \<and> process_online a' = process_online a \<and>
   total_requests (stats a') = total_requests (stats a) + 1"
proof (cases "run_handler a q c m")
  case (Pair res s')
  show ?thesis
  proof (cases res)
    case (Inl e)
    with Pair assms process_raise [of a q c m e s' clk n] show ?thesis
      by auto
  next
    case (Inr r)
    with Pair assms process_return_agent [of a q c m r s' clk n resp a' n'] show ?thesis
      by simp
  qed
qed

lemma agent_scores_ids:
  "agent_scores reg q c = Inr scores \<Longrightarrow>
   set (map fst scores) \<subseteq> set (map fst reg) \<and>
   (distinct (map fst reg) \<longrightarrow> distinct (map fst scores))"
proof (induction reg arbitrary: scores)
  case Nil
  then show ?case by simp
next
  case (Cons x reg)
  obtain aid a where x: "x = (aid, a)" by (cases x)
  from Cons.prems x obtain conf rest where
    r: "agent_scores reg q c = Inr rest"
    and s: "scores = (if conf > 0 then (aid, conf, priority_value (priority a)) # rest else rest)"
    by (auto split: sum.splits)
  from Cons.IH [OF r] s x show ?case by auto
qed

lemma distinct_fst_sort_key:
  "distinct (map fst xs) \<Longrightarrow> distinct (map fst (sort_key k xs))"
proof -
  have "mset (map fst (sort_key k xs)) = mset (map fst xs)" by simp
  then show "distinct (map fst xs) \<Longrightarrow> distinct (map fst (sort_key k xs))"
    by (metis mset_eq_imp_distinct_iff)
qed

lemma select_agents_ids:
  assumes "select_agents orch q c = Inr sel"
  shows "set (map fst sel) \<subseteq> set (map fst (agents orch)) \<and>
   (distinct (map fst (agents orch)) \<longrightarrow> distinct (map fst sel)) \<and> length sel \<le> 3"
proof -
  from assms obtain scores where sc: "agent_scores (agents orch) q c = Inr scores"
    and sel: "sel = map (\<lambda>(aid, conf, p). (aid, conf))
                 (take 3 (sort_key (\<lambda>(aid, conf, p). (- conf, p)) scores))"
    by (auto simp: select_agents_def split: sum.splits)
  have m: "map fst sel = take 3 (map fst (sort_key (\<lambda>(aid, conf, p). (- conf, p)) scores))"
    by (simp add: sel take_map case_prod_unfold comp_def)
  have "set (map fst sel) \<subseteq> set (map fst scores)"
    unfolding m using set_take_subset [of 3 "map fst (sort_key (\<lambda>(aid, conf, p). (- conf, p)) scores)"]
    by simp
  moreover have "distinct (map fst scores) \<Longrightarrow> distinct (map fst sel)"
    unfolding m by (intro distinct_take distinct_fst_sort_key)
  moreover have "length sel \<le> 3" by (simp add: sel)
  ultimately show ?thesis using agent_scores_ids [OF sc] by blast
qed

end
